theory Spec2Isabelle
  imports Complex_Main
begin

section \<open>Values of the host language\<close>

text \<open>
  The page keeps the service's answers as untyped values (\<^verbatim>\<open>useState<any>\<close>,
  \<^verbatim>\<open>err: any\<close>), so the embedding works on decoded JSON values. A \<open>JObj\<close> lists the
  own properties of a decoded object in the order in which \<^verbatim>\<open>Object.entries\<close> enumerates
  them. The property names that are written out in the page (\<^verbatim>\<open>valid\<close>, \<^verbatim>\<open>previews\<close>,
  \<^verbatim>\<open>check_results\<close>, \<^verbatim>\<open>error_locations\<close>, \<^verbatim>\<open>passed\<close>, \<^verbatim>\<open>msg\<close>, \<^verbatim>\<open>detail\<close>) are names of no
  member of a built-in prototype, so for them a read finds an own property of a decoded
  object or \<^verbatim>\<open>undefined\<close>; this is \<open>get_prop\<close>. The one computed name, the table name in
  \<^verbatim>\<open>result.error_locations[tableName]\<close>, is read by \<open>read_member\<close>, which also finds
  inherited members.
\<close>

datatype jsval =
    JUndefined
  | JNull
  | JBool bool
  | JNum rat
  | JStr string
  | JArr "jsval list"
  | JObj "(string \<times> jsval) list"

datatype js_error = TypeError

text \<open>\<^verbatim>\<open>!!v\<close>: the values the host treats as false are \<^verbatim>\<open>undefined\<close>, \<^verbatim>\<open>null\<close>,
  \<^verbatim>\<open>false\<close>, \<^verbatim>\<open>0\<close> and the empty string.\<close>

fun truthy :: "jsval \<Rightarrow> bool" where
  "truthy JUndefined = False"
| "truthy JNull = False"
| "truthy (JBool b) = b"
| "truthy (JNum n) = (n \<noteq> 0)"
| "truthy (JStr s) = (s \<noteq> [])"
| "truthy (JArr xs) = True"
| "truthy (JObj kvs) = True"

fun nullish :: "jsval \<Rightarrow> bool" where
  "nullish JUndefined = True"
| "nullish JNull = True"
| "nullish v = False"

text \<open>\<^verbatim>\<open>a || b\<close> and \<^verbatim>\<open>a ?? b\<close> on values.\<close>

definition js_or :: "jsval \<Rightarrow> jsval \<Rightarrow> jsval" where
  "js_or a b = (if truthy a then a else b)"

definition js_coalesce :: "jsval \<Rightarrow> jsval \<Rightarrow> jsval" where
  "js_coalesce a b = (if nullish a then b else a)"

text \<open>\<^verbatim>\<open>v.k\<close> for a written-out name \<open>k\<close>: a property read of \<^verbatim>\<open>undefined\<close> or \<^verbatim>\<open>null\<close>
  throws.\<close>

fun get_prop :: "jsval \<Rightarrow> string \<Rightarrow> js_error + jsval" where
  "get_prop JUndefined k = Inl TypeError"
| "get_prop JNull k = Inl TypeError"
| "get_prop (JObj kvs) k = Inr (case map_of kvs k of None \<Rightarrow> JUndefined | Some v \<Rightarrow> v)"
| "get_prop v k = Inr JUndefined"

text \<open>\<^verbatim>\<open>v?.k\<close>: the optional chain gives \<^verbatim>\<open>undefined\<close> where the plain read throws.\<close>

definition opt_prop :: "jsval \<Rightarrow> string \<Rightarrow> jsval" where
  "opt_prop v k = (case get_prop v k of Inl e \<Rightarrow> JUndefined | Inr x \<Rightarrow> x)"

text \<open>Sequencing of computations that may throw: the first exception wins.\<close>

definition and_then :: "'e + 'a \<Rightarrow> ('a \<Rightarrow> 'e + 'b) \<Rightarrow> 'e + 'b" where
  "and_then m f = (case m of Inl e \<Rightarrow> Inl e | Inr x \<Rightarrow> f x)"

text \<open>\<^verbatim>\<open>xs.map((x, i) => f(x, i))\<close> for a callback that may throw; \<open>i\<close> is the index of
  the head of the remaining list.\<close>

fun map_idx :: "(nat \<Rightarrow> 'a \<Rightarrow> 'e + 'b) \<Rightarrow> nat \<Rightarrow> 'a list \<Rightarrow> 'e + 'b list" where
  "map_idx f i [] = Inr []"
| "map_idx f i (x # xs) =
     and_then (f i x) (\<lambda>y. and_then (map_idx f (Suc i) xs) (\<lambda>ys. Inr (y # ys)))"

text \<open>Text shown to the operator: literal parts of a template, the values put into
  it, which the host converts to text, and the message of a runtime exception.\<close>

datatype piece = Lit string | Val jsval | ErrText js_error

type_synonym message = "piece list"

section \<open>The state of the page\<close>

datatype backend_status = Checking | Ready | Error

datatype file_obj = File (file_name: string) (file_bytes: "nat list")

text \<open>The seven state variables of \<^verbatim>\<open>Home\<close>, and the two places of the document that
  \<^verbatim>\<open>handleClear\<close> and the file input write directly: the text of the label of the file
  input and the value of the native input.\<close>

record ui_state =
  dataset :: string
  file_val :: "file_obj option"
  result :: jsval
  loading :: bool
  backendStatus :: backend_status
  showValidation :: bool
  showPreview :: bool
  label_text :: string
  input_value :: string

definition initial_state :: ui_state where
  "initial_state =
     \<lparr> dataset = [], file_val = None, result = JNull, loading = False,
       backendStatus = Checking, showValidation = True, showPreview = True,
       label_text = ''Select file for upload'', input_value = [] \<rparr>"

section \<open>Effects\<close>

text \<open>What a handler does besides updating the state: requests, dialogs, the console,
  and an exception that leaves the handler uncaught.\<close>

text \<open>The error that a failed request throws, with the fields that the page reads: the
  response (absent when none was received) with its status and its decoded body, the
  error code and the message.\<close>

record response =
  status :: nat
  data :: jsval

record axios_error =
  err_response :: "response option"
  err_code :: "string option"
  err_message :: string

datatype body = FormData file_obj | Json jsval

datatype effect =
    Alert message
  | HttpPost string body
  | ConsoleError axios_error
  | Uncaught js_error

text \<open>How an awaited request ends: with the response's \<^verbatim>\<open>data\<close>, or with the
  error that \<^verbatim>\<open>axios\<close> throws.\<close>

datatype settled = Fulfilled jsval | Thrown axios_error

section \<open>The handlers\<close>

text \<open>
  A handler that awaits a request is split at the \<^verbatim>\<open>await\<close>: the part before it runs on
  the state at the time of the click and issues the request; the part after it runs
  when the request has settled, on the state of that time (it only calls setters, so it
  reads nothing from the render in which the click happened).
\<close>

subsection \<open>handleValidate\<close>

definition missing_input_text :: string where
  "missing_input_text = ''Please select dataset and file''"

definition server_fallback_text :: string where
  "server_fallback_text = ''Validation crashed. Check backend logs.''"

text \<open>The dash of the third text is the three bytes of U+2014.\<close>

definition network_error_text :: string where
  "network_error_text =
     ''Network error '' @ [CHR 0xE2, CHR 0x80, CHR 0x94] @
     '' backend may be down. Check if uvicorn is running on port 8000.''"

definition handleValidate :: "ui_state \<Rightarrow> ui_state \<times> effect list" where
  "handleValidate s =
     (case file_val s of
        None \<Rightarrow> (s, [Alert [Lit missing_input_text]])
      | Some f \<Rightarrow>
          if dataset s = [] then (s, [Alert [Lit missing_input_text]])
          else (s\<lparr> loading := True, result := JNull \<rparr>,
                [HttpPost (''http://localhost:8000/validate/'' @ dataset s) (FormData f)]))"

text \<open>The last branch of the \<^verbatim>\<open>catch\<close> block:
  \<^verbatim>\<open>err.response?.data?.detail || err.message\<close>.\<close>

definition rejected_alert :: "axios_error \<Rightarrow> message" where
  "rejected_alert err =
     [Lit ''Validation failed: '',
      Val (js_or (case err_response err of
                    None \<Rightarrow> JUndefined
                  | Some r \<Rightarrow> opt_prop (data r) ''detail'')
                 (JStr (err_message err)))]"

text \<open>\<^verbatim>\<open>err.response?.status\<close>.\<close>

definition response_status :: "axios_error \<Rightarrow> nat option" where
  "response_status err = map_option status (err_response err)"

text \<open>The first branch: \<^verbatim>\<open>err.response.data.detail || 'Validation crashed. ...'\<close>, where
  \<^verbatim>\<open>err.response.data.detail\<close> is a chain of plain property reads.\<close>

definition server_error_alert :: "axios_error \<Rightarrow> js_error + message" where
  "server_error_alert err =
     and_then (case err_response err of
                 None \<Rightarrow> Inl TypeError
               | Some r \<Rightarrow> get_prop (data r) ''detail'')
       (\<lambda>d. Inr [Lit ''Server error: '', Val (js_or d (JStr server_fallback_text))])"

text \<open>The text of the dialog that the \<^verbatim>\<open>catch\<close> block opens, or the exception that
  computing it throws.\<close>

definition validate_alert :: "axios_error \<Rightarrow> js_error + message" where
  "validate_alert err =
     (if response_status err = Some 500 then server_error_alert err
      else if err_code err = Some ''ERR_NETWORK'' then Inr [Lit network_error_text]
      else Inr (rejected_alert err))"

text \<open>After the \<^verbatim>\<open>await\<close>. An exception thrown inside the \<^verbatim>\<open>catch\<close> block leaves the
  handler, so the \<^verbatim>\<open>setLoading(false)\<close> that follows the block does not run.\<close>

definition handleValidate_settled :: "settled \<Rightarrow> ui_state \<Rightarrow> ui_state \<times> effect list" where
  "handleValidate_settled out s =
     (case out of
        Fulfilled d \<Rightarrow>
          (s\<lparr> result := d, showValidation := True, showPreview := True, loading := False \<rparr>, [])
      | Thrown err \<Rightarrow>
          (case validate_alert err of
             Inl e \<Rightarrow> (s, [ConsoleError err, Uncaught e])
           | Inr m \<Rightarrow> (s\<lparr> loading := False \<rparr>, [ConsoleError err, Alert m])))"

subsection \<open>handleSave\<close>

definition handleSave :: "ui_state \<Rightarrow> ui_state \<times> effect list" where
  "handleSave s =
     (if \<not> truthy (opt_prop (result s) ''valid'') then
        (s, [Alert [Lit ''Fix validation errors first'']])
      else
        (case get_prop (result s) ''previews'' of
           Inl e \<Rightarrow> (s, [Alert [Lit ''Save failed: '', ErrText e]])
         | Inr p \<Rightarrow> (s, [HttpPost (''http://localhost:8000/save/'' @ dataset s) (Json p)])))"

definition handleSave_settled :: "settled \<Rightarrow> ui_state \<Rightarrow> ui_state \<times> effect list" where
  "handleSave_settled out s =
     (case out of
        Fulfilled d \<Rightarrow>
          (s\<lparr> result := JNull, file_val := None, dataset := [] \<rparr>,
           [Alert [Lit ''Data saved to SQLite database!'']])
      | Thrown err \<Rightarrow> (s, [Alert [Lit ''Save failed: '', Val (JStr (err_message err))]]))"

subsection \<open>handleClear\<close>

definition handleClear :: "ui_state \<Rightarrow> ui_state" where
  "handleClear s =
     s\<lparr> result := JNull, file_val := None, dataset := [],
        showValidation := True, showPreview := True,
        label_text := ''Select file for upload'', input_value := [] \<rparr>"

text \<open>The workflow is idle when no report, no file and no dataset are held.\<close>

definition is_idle :: "ui_state \<Rightarrow> bool" where
  "is_idle s \<longleftrightarrow> result s = JNull \<and> file_val s = None \<and> dataset s = []"

subsection \<open>The controls and the liveness poll\<close>

text \<open>\<^verbatim>\<open>checkBackend\<close>, run at mount and every two seconds: the argument says whether the
  probe was answered.\<close>

definition checkBackend :: "bool \<Rightarrow> ui_state \<Rightarrow> ui_state" where
  "checkBackend ok s = s\<lparr> backendStatus := (if ok then Ready else Error) \<rparr>"

definition onDatasetChange :: "string \<Rightarrow> ui_state \<Rightarrow> ui_state" where
  "onDatasetChange v s = s\<lparr> dataset := v \<rparr>"

text \<open>The file input: \<open>selected\<close> is \<^verbatim>\<open>e.target.files?.[0] || null\<close>, \<open>native\<close> the value
  that the browser has given to the input.\<close>

definition onFileChange :: "file_obj option \<Rightarrow> string \<Rightarrow> ui_state \<Rightarrow> ui_state" where
  "onFileChange selected native s =
     s\<lparr> file_val := selected,
        label_text := (case selected of
                         None \<Rightarrow> ''Select file for upload''
                       | Some f \<Rightarrow> file_name f @ '' selected''),
        input_value := native \<rparr>"

text \<open>The \<^verbatim>\<open>disabled\<close> attribute of the validate button.\<close>

definition validate_disabled :: "ui_state \<Rightarrow> bool" where
  "validate_disabled s \<longleftrightarrow>
     loading s \<or> file_val s = None \<or> dataset s = [] \<or> backendStatus s \<noteq> Ready"

text \<open>The results block is rendered under \<^verbatim>\<open>result && (...)\<close>: the two toggles, the
  clear button and, under \<^verbatim>\<open>result.valid && (...)\<close>, the save button.\<close>

definition save_shown :: "ui_state \<Rightarrow> bool" where
  "save_shown s \<longleftrightarrow> truthy (result s) \<and> truthy (opt_prop (result s) ''valid'')"

definition results_shown :: "ui_state \<Rightarrow> bool" where
  "results_shown s \<longleftrightarrow> truthy (result s)"

section \<open>The workflow as a transition system\<close>

text \<open>
  The page together with the requests that are awaiting their answer. An event is what
  the operator, the poll or the network does. A click on a button that is disabled or
  not rendered does not reach its handler, and an answer arrives only for a request
  that is pending.
\<close>

record world =
  ui :: ui_state
  validate_pending :: nat
  save_pending :: nat

datatype event =
    Health bool
  | DatasetChange string
  | FileChange "file_obj option" string
  | ClickValidate
  | ValidateSettled settled
  | ClickSave
  | SaveSettled settled
  | ClickClear
  | ToggleValidation
  | TogglePreview

fun is_post :: "effect \<Rightarrow> bool" where
  "is_post (HttpPost url b) = True"
| "is_post e = False"

definition posts :: "effect list \<Rightarrow> nat" where
  "posts fx = length (filter is_post fx)"

definition initial_world :: world where
  "initial_world = \<lparr> ui = initial_state, validate_pending = 0, save_pending = 0 \<rparr>"

fun step :: "event \<Rightarrow> world \<Rightarrow> world \<times> effect list" where
  "step (Health ok) w = (w\<lparr> ui := checkBackend ok (ui w) \<rparr>, [])"
| "step (DatasetChange v) w = (w\<lparr> ui := onDatasetChange v (ui w) \<rparr>, [])"
| "step (FileChange selected native) w = (w\<lparr> ui := onFileChange selected native (ui w) \<rparr>, [])"
| "step ClickValidate w =
     (if validate_disabled (ui w) then (w, [])
      else (case handleValidate (ui w) of
              (s, fx) \<Rightarrow> (w\<lparr> ui := s, validate_pending := validate_pending w + posts fx \<rparr>, fx)))"
| "step (ValidateSettled out) w =
     (if validate_pending w = 0 then (w, [])
      else (case handleValidate_settled out (ui w) of
              (s, fx) \<Rightarrow> (w\<lparr> ui := s, validate_pending := validate_pending w - 1 \<rparr>, fx)))"
| "step ClickSave w =
     (if \<not> save_shown (ui w) then (w, [])
      else (case handleSave (ui w) of
              (s, fx) \<Rightarrow> (w\<lparr> ui := s, save_pending := save_pending w + posts fx \<rparr>, fx)))"
| "step (SaveSettled out) w =
     (if save_pending w = 0 then (w, [])
      else (case handleSave_settled out (ui w) of
              (s, fx) \<Rightarrow> (w\<lparr> ui := s, save_pending := save_pending w - 1 \<rparr>, fx)))"
| "step ClickClear w =
     (if \<not> results_shown (ui w) then (w, []) else (w\<lparr> ui := handleClear (ui w) \<rparr>, []))"
| "step ToggleValidation w =
     (if \<not> results_shown (ui w) then (w, [])
      else (w\<lparr> ui := (ui w)\<lparr> showValidation := \<not> showValidation (ui w) \<rparr> \<rparr>, []))"
| "step TogglePreview w =
     (if \<not> results_shown (ui w) then (w, [])
      else (w\<lparr> ui := (ui w)\<lparr> showPreview := \<not> showPreview (ui w) \<rparr> \<rparr>, []))"

text \<open>The world after a sequence of events, from the mounted page.\<close>

fun run :: "event list \<Rightarrow> world \<Rightarrow> world" where
  "run [] w = w"
| "run (e # es) w = run es (fst (step e w))"

section \<open>What the page renders from a report\<close>

text \<open>\<^verbatim>\<open>xs.map(f)\<close> for a callback that may throw.\<close>

fun map_ok :: "('a \<Rightarrow> 'e + 'b) \<Rightarrow> 'a list \<Rightarrow> 'e + 'b list" where
  "map_ok f [] = Inr []"
| "map_ok f (x # xs) = and_then (f x) (\<lambda>y. and_then (map_ok f xs) (\<lambda>ys. Inr (y # ys)))"

text \<open>The decimal name of an index property.\<close>

fun string_of_nat :: "nat \<Rightarrow> string" where
  "string_of_nat n =
     (if n < 10 then [char_of (48 + n)]
      else string_of_nat (n div 10) @ [char_of (48 + n mod 10)])"

declare string_of_nat.simps [simp del]

text \<open>\<^verbatim>\<open>Object.entries(v)\<close>: throws on \<^verbatim>\<open>undefined\<close> and \<^verbatim>\<open>null\<close>; an array and a string
  have their index properties, a number and a boolean have none.\<close>

fun object_entries :: "jsval \<Rightarrow> js_error + (string \<times> jsval) list" where
  "object_entries JUndefined = Inl TypeError"
| "object_entries JNull = Inl TypeError"
| "object_entries (JObj kvs) = Inr kvs"
| "object_entries (JArr xs) = Inr (zip (map string_of_nat [0..<length xs]) xs)"
| "object_entries (JStr s) = Inr (zip (map string_of_nat [0..<length s]) (map (\<lambda>c. JStr [c]) s))"
| "object_entries v = Inr []"

subsection \<open>Validation summary\<close>

text \<open>
  One line per check: the name, whether the line is drawn as passed, and its text
  \<^verbatim>\<open>{passed ? 'PASSED' : 'FAILED'} {msg}\<close>, where \<^verbatim>\<open>passed = check.passed === true\<close> and
  \<^verbatim>\<open>msg = check.msg || 'No message'\<close>. The heading of a table, derived from its name, is
  not modelled; the name itself is kept.
\<close>

record check_view =
  cv_name :: string
  cv_passed :: bool
  cv_text :: message

fun render_check :: "string \<times> jsval \<Rightarrow> js_error + check_view" where
  "render_check (checkName, check) =
     and_then (get_prop check ''passed'') (\<lambda>p.
     and_then (get_prop check ''msg'') (\<lambda>m.
       let passed = (p = JBool True);
           msg = js_or m (JStr ''No message'')
       in Inr \<lparr> cv_name = checkName, cv_passed = passed,
                 cv_text = [Lit (if passed then ''PASSED'' else ''FAILED''), Lit '' '', Val msg] \<rparr>))"

fun render_checks :: "string \<times> jsval \<Rightarrow> js_error + string \<times> check_view list" where
  "render_checks (tableName, checks) =
     and_then (object_entries checks) (\<lambda>kvs.
     and_then (map_ok render_check kvs) (\<lambda>cs. Inr (tableName, cs)))"

definition render_check_results :: "jsval \<Rightarrow> js_error + (string \<times> check_view list) list" where
  "render_check_results res =
     and_then (get_prop res ''check_results'') (\<lambda>cr.
     and_then (object_entries cr) (map_ok render_checks))"

subsection \<open>Data preview\<close>

text \<open>The parameter pattern \<^verbatim>\<open>[r, c]\<close> takes the first two elements of an array or of a
  string, \<^verbatim>\<open>undefined\<close> where there is none, and throws on a value that cannot be
  iterated.\<close>

fun nth_or_undefined :: "jsval list \<Rightarrow> nat \<Rightarrow> jsval" where
  "nth_or_undefined [] i = JUndefined"
| "nth_or_undefined (x # xs) 0 = x"
| "nth_or_undefined (x # xs) (Suc i) = nth_or_undefined xs i"

fun destructure_pair :: "jsval \<Rightarrow> js_error + jsval \<times> jsval" where
  "destructure_pair (JArr xs) = Inr (nth_or_undefined xs 0, nth_or_undefined xs 1)"
| "destructure_pair (JStr s) =
     Inr (nth_or_undefined (map (\<lambda>c. JStr [c]) s) 0, nth_or_undefined (map (\<lambda>c. JStr [c]) s) 1)"
| "destructure_pair v = Inl TypeError"

text \<open>\<^verbatim>\<open>errors.some(([r, c]) => r === rowIndex && c === col)\<close>: elements after the first
  match are not looked at.\<close>

fun hasError :: "jsval list \<Rightarrow> nat \<Rightarrow> string \<Rightarrow> js_error + bool" where
  "hasError [] rowIndex col = Inr False"
| "hasError (e # es) rowIndex col =
     and_then (destructure_pair e) (\<lambda>(r, c).
       if r = JNum (of_nat rowIndex) \<and> c = JStr col then Inr True
       else hasError es rowIndex col)"

text \<open>
  The one computed property read of the page is \<^verbatim>\<open>result.error_locations[tableName]\<close>.
  Unlike the names that are written out, a table name may be the name of a member that
  the receiver inherits from its prototype: the host then finds a function (or, for
  \<^verbatim>\<open>__proto__\<close>, the prototype object) where the receiver has no property of its own.
  The names below are those of the standard built-in prototypes (ECMAScript 2024 with
  its annex for browsers); every value inherits the members of \<^verbatim>\<open>Object.prototype\<close>.
\<close>

definition object_prototype_names :: "string list" where
  "object_prototype_names =
     [''constructor'', ''__defineGetter__'', ''__defineSetter__'', ''hasOwnProperty'',
      ''__lookupGetter__'', ''__lookupSetter__'', ''isPrototypeOf'', ''propertyIsEnumerable'',
      ''toString'', ''valueOf'', ''__proto__'', ''toLocaleString'']"

definition array_prototype_names :: "string list" where
  "array_prototype_names =
     [''at'', ''concat'', ''copyWithin'', ''entries'', ''every'', ''fill'', ''filter'', ''find'',
      ''findIndex'', ''findLast'', ''findLastIndex'', ''flat'', ''flatMap'', ''forEach'',
      ''includes'', ''indexOf'', ''join'', ''keys'', ''lastIndexOf'', ''map'', ''pop'', ''push'',
      ''reduce'', ''reduceRight'', ''reverse'', ''shift'', ''slice'', ''some'', ''sort'',
      ''splice'', ''toReversed'', ''toSorted'', ''toSpliced'', ''unshift'', ''values'', ''with'']"

definition string_prototype_names :: "string list" where
  "string_prototype_names =
     [''at'', ''charAt'', ''charCodeAt'', ''codePointAt'', ''concat'', ''endsWith'', ''includes'',
      ''indexOf'', ''isWellFormed'', ''toWellFormed'', ''lastIndexOf'', ''localeCompare'', ''match'', ''matchAll'', ''normalize'',
      ''padEnd'', ''padStart'', ''repeat'', ''replace'', ''replaceAll'', ''search'', ''slice'',
      ''split'', ''startsWith'', ''substring'', ''toLocaleLowerCase'', ''toLocaleUpperCase'',
      ''toLowerCase'', ''toUpperCase'', ''trim'', ''trimEnd'', ''trimStart'', ''substr'',
      ''anchor'', ''big'', ''blink'', ''bold'', ''fixed'', ''fontcolor'', ''fontsize'',
      ''italics'', ''link'', ''small'', ''strike'', ''sub'', ''sup'', ''trimLeft'', ''trimRight'']"

definition number_prototype_names :: "string list" where
  "number_prototype_names = [''toExponential'', ''toFixed'', ''toPrecision'']"

text \<open>What a computed read finds: a decoded value (\<^verbatim>\<open>undefined\<close> when there is no such
  property), or an inherited member of the host, which is a true value; the flag tells
  whether that member is an array, which only \<^verbatim>\<open>Array.prototype\<close> is.\<close>

datatype member = Data jsval | HostValue bool

text \<open>The index that a property name denotes in a sequence of \<open>n\<close> elements.\<close>

definition array_index :: "string \<Rightarrow> nat \<Rightarrow> nat option" where
  "array_index k n = find (\<lambda>i. string_of_nat i = k) [0..<n]"

fun read_member :: "jsval \<Rightarrow> string \<Rightarrow> js_error + member" where
  "read_member JUndefined k = Inl TypeError"
| "read_member JNull k = Inl TypeError"
| "read_member (JObj kvs) k =
     Inr (case map_of kvs k of
            Some v \<Rightarrow> Data v
          | None \<Rightarrow> if k \<in> set object_prototype_names then HostValue False else Data JUndefined)"
| "read_member (JArr xs) k =
     Inr (if k = ''length'' then Data (JNum (of_nat (length xs)))
          else case array_index k (length xs) of
                 Some i \<Rightarrow> Data (xs ! i)
               | None \<Rightarrow>
                   if k = ''__proto__'' then HostValue True
                   else if k \<in> set array_prototype_names \<union> set object_prototype_names
                   then HostValue False
                   else Data JUndefined)"
| "read_member (JStr s) k =
     Inr (if k = ''length'' then Data (JNum (of_nat (length s)))
          else case array_index k (length s) of
                 Some i \<Rightarrow> Data (JStr [s ! i])
               | None \<Rightarrow>
                   if k \<in> set string_prototype_names \<union> set object_prototype_names
                   then HostValue False
                   else Data JUndefined)"
| "read_member (JNum n) k =
     Inr (if k \<in> set number_prototype_names \<union> set object_prototype_names
          then HostValue False else Data JUndefined)"
| "read_member (JBool b) k =
     Inr (if k \<in> set object_prototype_names then HostValue False else Data JUndefined)"

text \<open>\<^verbatim>\<open>result.error_locations[tableName] || []\<close>, on which \<^verbatim>\<open>some\<close> is then called:
  a true value that is not an array has no such method, and \<^verbatim>\<open>Array.prototype\<close> is an
  array without elements.\<close>

definition errors_of :: "jsval \<Rightarrow> string \<Rightarrow> js_error + jsval list" where
  "errors_of res tableName =
     and_then (get_prop res ''error_locations'') (\<lambda>el.
     and_then (read_member el tableName) (\<lambda>m.
       case m of
         Data e \<Rightarrow> (case js_or e (JArr []) of JArr xs \<Rightarrow> Inr xs | _ \<Rightarrow> Inl TypeError)
       | HostValue is_array \<Rightarrow> if is_array then Inr [] else Inl TypeError))"

text \<open>A cell of the body: its column, the value shown (\<^verbatim>\<open>value ?? 'NULL'\<close>) and whether it
  is drawn as an error. How the host turns the value into text is not modelled.\<close>

record cell_view =
  cell_col :: string
  cell_value :: jsval
  cell_flagged :: bool

fun render_cell :: "jsval \<Rightarrow> string \<Rightarrow> nat \<Rightarrow> string \<times> jsval \<Rightarrow> js_error + cell_view" where
  "render_cell res tableName rowIndex (col, v) =
     and_then (errors_of res tableName) (\<lambda>errors.
     and_then (hasError errors rowIndex col) (\<lambda>h.
       Inr \<lparr> cell_col = col, cell_value = js_coalesce v (JStr ''NULL''), cell_flagged = h \<rparr>))"

definition render_row :: "jsval \<Rightarrow> string \<Rightarrow> nat \<Rightarrow> jsval \<Rightarrow> js_error + cell_view list" where
  "render_row res tableName rowIndex row =
     and_then (object_entries row) (map_ok (render_cell res tableName rowIndex))"

text \<open>\<^verbatim>\<open>rows[0] && Object.keys(rows[0]).map(...)\<close>: no header cell when there is no first
  row or it is false.\<close>

definition render_header :: "jsval list \<Rightarrow> js_error + string list" where
  "render_header rows =
     (case rows of
        [] \<Rightarrow> Inr []
      | r # rest \<Rightarrow>
          if truthy r then and_then (object_entries r) (\<lambda>kvs. Inr (map fst kvs)) else Inr [])"

text \<open>A table of the preview: header cells, the rows of \<^verbatim>\<open>rows.slice(0, 20)\<close>, and the
  paragraph under \<^verbatim>\<open>rows.length > 20\<close>. On a value that is not an array the calls
  \<^verbatim>\<open>rows.slice(0, 20).map(...)\<close> throw.\<close>

record table_view =
  tv_name :: string
  tv_header :: "string list"
  tv_body :: "cell_view list list"
  tv_summary :: "message option"

fun render_table :: "jsval \<Rightarrow> string \<times> jsval \<Rightarrow> js_error + table_view" where
  "render_table res (tableName, JArr rows) =
     and_then (render_header rows) (\<lambda>h.
     and_then (map_idx (render_row res tableName) 0 (take 20 rows)) (\<lambda>b.
       Inr \<lparr> tv_name = tableName, tv_header = h, tv_body = b,
             tv_summary =
               (if 20 < length rows
                then Some [Lit ''Showing first 20 rows of '', Val (JNum (of_nat (length rows)))]
                else None) \<rparr>))"
| "render_table res (tableName, v) = Inl TypeError"

definition render_previews :: "jsval \<Rightarrow> js_error + table_view list" where
  "render_previews res =
     and_then (get_prop res ''previews'') (\<lambda>p.
     and_then (object_entries p) (map_ok (render_table res)))"

section \<open>The report as the service sends it\<close>

text \<open>
  The error coordinates of a report, per table a list of pairs of a row index and a
  column name, and their JSON form \<^verbatim>\<open>{table: [[row, column], ...], ...}\<close> under
  \<^verbatim>\<open>error_locations\<close>.
\<close>

type_synonym locations = "(string \<times> (rat \<times> string) list) list"

definition coord_js :: "rat \<times> string \<Rightarrow> jsval" where
  "coord_js rc = JArr [JNum (fst rc), JStr (snd rc)]"

definition locations_js :: "locations \<Rightarrow> jsval" where
  "locations_js locs = JObj (map (\<lambda>tc. (fst tc, JArr (map coord_js (snd tc)))) locs)"

text \<open>The coordinates listed for a table: none when the table has no entry.\<close>

definition errors_at :: "locations \<Rightarrow> string \<Rightarrow> (rat \<times> string) list" where
  "errors_at locs t = (case map_of locs t of None \<Rightarrow> [] | Some cs \<Rightarrow> cs)"

text \<open>The accessor of the specification: membership of the coordinate in the table's
  error locations.\<close>

definition isCellFlagged :: "locations \<Rightarrow> string \<Rightarrow> nat \<Rightarrow> string \<Rightarrow> bool" where
  "isCellFlagged locs t r c \<longleftrightarrow> (of_nat r, c) \<in> set (errors_at locs t)"

section \<open>Failure classes\<close>





section \<open>Invariant of the transition system\<close>

text \<open>At most one validate request is pending, and while it is, the page is loading and
  holds no report.\<close>

definition flight_inv :: "world \<Rightarrow> bool" where
  "flight_inv w \<longleftrightarrow>
     validate_pending w \<le> 1 \<and>
     (validate_pending w = 1 \<longrightarrow> loading (ui w) \<and> result (ui w) = JNull)"

section \<open>Example data\<close>

text \<open>A one-row report for the table \<open>risk\<close>, with one error coordinate on a cell of the
  preview, one beyond its rows and one on a column that the row does not have.\<close>

definition scenario_rows :: "(string \<times> jsval) list list" where
  "scenario_rows = [[(''id'', JNum 1), (''amount'', JNum 100)]]"

definition scenario_locations :: locations where
  "scenario_locations = [(''risk'', [(0, ''amount''), (7, ''amount''), (0, ''nope'')])]"

definition scenario_report :: jsval where
  "scenario_report =
     JObj [(''valid'', JBool False),
           (''previews'', JObj [(''risk'', JArr (map JObj scenario_rows))]),
           (''error_locations'', locations_js scenario_locations)]"

text \<open>A preview of 25 rows without error coordinates.\<close>

definition long_rows :: "(string \<times> jsval) list list" where
  "long_rows = map (\<lambda>i. [(''id'', JNum (of_nat i))]) [0..<25]"

definition long_report :: jsval where
  "long_report =
     JObj [(''previews'', JObj [(''t'', JArr (map JObj long_rows))]),
           (''error_locations'', locations_js [])]"

text \<open>A report whose only table is named \<^verbatim>\<open>constructor\<close> and has no error coordinates.\<close>

definition inherited_name_report :: jsval where
  "inherited_name_report =
     JObj [(''valid'', JBool True),
           (''check_results'', JObj []),
           (''previews'', JObj [(''constructor'', JArr [JObj [(''id'', JNum 1)]])]),
           (''error_locations'', JObj [])]"

text \<open>The error of a response with status 500 whose body is the JSON text \<^verbatim>\<open>null\<close>, and a
  session in which the validate request is answered by it.\<close>

definition null_body_500 :: axios_error where
  "null_body_500 =
     \<lparr> err_response = Some \<lparr> status = 500, data = JNull \<rparr>,
       err_code = Some ''ERR_BAD_RESPONSE'',
       err_message = ''Request failed with status code 500'' \<rparr>"

definition ready_session :: "event list" where
  "ready_session =
     [Health True, DatasetChange ''Risk'',
      FileChange (Some (File ''risk.xlsx'' [])) ''risk.xlsx'']"

definition null_body_session :: "event list" where
  "null_body_session = ready_session @ [ClickValidate, ValidateSettled (Thrown null_body_500)]"

section \<open>Properties\<close>

subsection \<open>Values\<close>


subsection \<open>The invariant holds in every reachable world\<close>

lemma flight_inv_initial: "flight_inv initial_world"
  by (simp add: flight_inv_def initial_world_def)

lemma posts_handleValidate:
  "\<not> validate_disabled s \<Longrightarrow> posts (snd (handleValidate s)) = 1"
  by (auto simp: validate_disabled_def handleValidate_def posts_def split: option.splits)

lemma handleValidate_enabled:
  "\<not> validate_disabled s \<Longrightarrow> loading (fst (handleValidate s)) \<and> result (fst (handleValidate s)) = JNull"
  by (auto simp: validate_disabled_def handleValidate_def split: option.splits)

lemma flight_inv_step: "flight_inv w \<Longrightarrow> flight_inv (fst (step e w))"
proof (cases e)
  case ClickValidate
  assume inv: "flight_inv w"
  show ?thesis
  proof (cases "validate_disabled (ui w)")
    case True
    with inv ClickValidate show ?thesis by simp
  next
    case False
    then have "\<not> loading (ui w)" by (simp add: validate_disabled_def)
    with inv have "validate_pending w = 0" by (auto simp: flight_inv_def)
    with False ClickValidate posts_handleValidate[OF False] handleValidate_enabled[OF False]
    show ?thesis by (auto simp: flight_inv_def split: prod.splits)
  qed
next
  case (ValidateSettled out)
  assume "flight_inv w"
  with ValidateSettled show ?thesis
    by (auto simp: flight_inv_def split: prod.splits)
next
  case ClickSave
  assume "flight_inv w"
  with ClickSave show ?thesis
    by (auto simp: flight_inv_def handleSave_def split: prod.splits sum.splits)
next
  case (SaveSettled out)
  assume "flight_inv w"
  with SaveSettled show ?thesis
    by (cases out) (auto simp: flight_inv_def handleSave_settled_def split: prod.splits)
qed (auto simp: flight_inv_def checkBackend_def onDatasetChange_def onFileChange_def handleClear_def)

lemma flight_inv_run: "flight_inv w \<Longrightarrow> flight_inv (run es w)"
  by (induction es arbitrary: w) (simp_all add: flight_inv_step)

lemma validate_failure_frame:
  "result (fst (handleValidate_settled (Thrown err) s)) = result s \<and>
   dataset (fst (handleValidate_settled (Thrown err) s)) = dataset s \<and>
   file_val (fst (handleValidate_settled (Thrown err) s)) = file_val s"
  by (simp add: handleValidate_settled_def split: sum.splits)

lemmas run_simps =
  initial_world_def initial_state_def checkBackend_def onDatasetChange_def onFileChange_def
  validate_disabled_def handleValidate_def handleValidate_settled_def posts_def
  validate_alert_def response_status_def server_error_alert_def
  save_shown_def results_shown_def handleClear_def

subsection \<open>The dialogs of a failed validation\<close>





subsection \<open>Rendering a well-formed preview\<close>

lemma map_of_locations:
  "map_of (map (\<lambda>tc. (fst tc, f (snd tc))) locs) t = map_option f (map_of locs t)"
  by (induction locs) auto

lemma read_member_locations:
  "read_member (locations_js locs) t =
     Inr (case map_of locs t of
            None \<Rightarrow> if t \<in> set object_prototype_names then HostValue False else Data JUndefined
          | Some cs \<Rightarrow> Data (JArr (map coord_js cs)))"
proof -
  have "map_of (map (\<lambda>tc. (fst tc, JArr (map coord_js (snd tc)))) locs) t =
          map_option (\<lambda>cs. JArr (map coord_js cs)) (map_of locs t)"
    by (rule map_of_locations [where f = "\<lambda>cs. JArr (map coord_js cs)"])
  then show ?thesis
    by (cases "map_of locs t") (simp_all add: locations_js_def)
qed

lemma errors_of_locations:
  assumes "get_prop res ''error_locations'' = Inr (locations_js locs)"
    and "map_of locs t \<noteq> None \<or> t \<notin> set object_prototype_names"
  shows "errors_of res t = Inr (map coord_js (errors_at locs t))"
  using assms
  by (auto simp: errors_of_def and_then_def read_member_locations errors_at_def js_or_def
      split: option.splits)

lemma errors_of_inherited:
  assumes "get_prop res ''error_locations'' = Inr (locations_js locs)"
    and "map_of locs t = None" and "t \<in> set object_prototype_names"
  shows "errors_of res t = Inl TypeError"
  using assms
  by (simp add: errors_of_def and_then_def read_member_locations)

lemma hasError_coords:
  "hasError (map coord_js cs) i col = Inr ((of_nat i, col) \<in> set cs)"
proof (induction cs)
  case Nil
  show ?case by simp
next
  case (Cons rc cs)
  obtain r c where rc: "rc = (r, c)" by (cases rc)
  show ?case
    using Cons.IH by (auto simp: rc coord_js_def and_then_def)
qed

lemma render_cells:
  assumes "errors_of res t = Inr (map coord_js cs)"
  shows "map_ok (render_cell res t i) row =
           Inr (map (\<lambda>kv. \<lparr> cell_col = fst kv,
                              cell_value = js_coalesce (snd kv) (JStr ''NULL''),
                              cell_flagged = ((of_nat i, fst kv) \<in> set cs) \<rparr>) row)"
proof (induction row)
  case Nil
  show ?case by simp
next
  case (Cons kv row)
  obtain col v where kv: "kv = (col, v)" by (cases kv)
  show ?case
    using Cons.IH assms by (simp add: kv and_then_def hasError_coords)
qed

lemma render_rows:
  assumes "errors_of res t = Inr (map coord_js cs)"
  shows "map_idx (render_row res t) k (map JObj rows) =
           Inr (map (\<lambda>ir. map (\<lambda>kv. \<lparr> cell_col = fst kv,
                              cell_value = js_coalesce (snd kv) (JStr ''NULL''),
                              cell_flagged = ((of_nat (fst ir), fst kv) \<in> set cs) \<rparr>) (snd ir))
                    (enumerate k rows))"
proof (induction rows arbitrary: k)
  case Nil
  show ?case by simp
next
  case (Cons row rows)
  show ?case
    using Cons.IH [of "Suc k"] render_cells [OF assms, of k row]
    by (simp add: and_then_def render_row_def)
qed

lemma render_header_objects:
  "render_header (map JObj rows) = Inr (case rows of [] \<Rightarrow> [] | r # rest \<Rightarrow> map fst r)"
  by (cases rows) (simp_all add: render_header_def and_then_def)

lemma render_table_objects:
  assumes "get_prop res ''error_locations'' = Inr (locations_js locs)"
    and "map_of locs t \<noteq> None \<or> t \<notin> set object_prototype_names"
  shows "render_table res (t, JArr (map JObj rows)) =
           Inr \<lparr> tv_name = t,
                 tv_header = (case rows of [] \<Rightarrow> [] | r # rest \<Rightarrow> map fst r),
                 tv_body =
                   map (\<lambda>ir. map (\<lambda>kv. \<lparr> cell_col = fst kv,
                              cell_value = js_coalesce (snd kv) (JStr ''NULL''),
                              cell_flagged = isCellFlagged locs t (fst ir) (fst kv) \<rparr>) (snd ir))
                       (enumerate 0 (take 20 rows)),
                 tv_summary =
                   (if 20 < length rows
                    then Some [Lit ''Showing first 20 rows of '', Val (JNum (of_nat (length rows)))]
                    else None) \<rparr>"
proof -
  have e: "errors_of res t = Inr (map coord_js (errors_at locs t))"
    by (rule errors_of_locations [OF assms])
  have "take 20 (map JObj rows) = map JObj (take 20 rows)"
    by (simp add: take_map)
  then show ?thesis
    using render_rows [OF e, of 0 "take 20 rows"]
    by (simp add: and_then_def render_header_objects isCellFlagged_def)
qed

lemma render_table_empty:
  "render_table res (t, JArr []) =
     Inr \<lparr> tv_name = t, tv_header = [], tv_body = [], tv_summary = None \<rparr>"
  by (simp add: render_header_def and_then_def)

lemma body_nth:
  assumes "i < length rs"
  shows "map F (enumerate 0 rs) ! i = F (i, rs ! i)"
  using assms by (simp add: nth_enumerate_eq)

lemma long_rows_length: "length long_rows = 25"
  by (simp add: long_rows_def)

lemma long_report_locations:
  "get_prop long_report ''error_locations'' = Inr (locations_js [])"
  by (simp add: long_report_def)

subsection \<open>Error highlighting\<close>

text \<open>
  What holds of the highlighting. Let the report carry, under \<^verbatim>\<open>error_locations\<close>, a
  mapping from table names to lists of (row index, column name) pairs, let the preview of
  table \<open>t\<close> be a list of row objects, and let \<open>t\<close> have an entry in that mapping or not be
  the name of a member inherited from \<^verbatim>\<open>Object.prototype\<close>. Then rendering the table
  raises no exception; the body has the first 20 rows with the columns of the preview
  rows; a cell at row index \<open>i\<close> and column \<open>c\<close> is flagged iff \<open>(i, c)\<close> is among the
  error locations of \<open>t\<close>; a listed coordinate whose row index is beyond the preview or
  whose column is absent from its row is the coordinate of no rendered cell; and when
  \<open>t\<close> has no entry, no cell is flagged.
\<close>

lemma cell_flagged_iff_listed:
  assumes "get_prop res ''error_locations'' = Inr (locations_js locs)"
    and "map_of locs t \<noteq> None \<or> t \<notin> set object_prototype_names"
  shows "\<exists>tv. render_table res (t, JArr (map JObj rows)) = Inr tv \<and>
           length (tv_body tv) = min 20 (length rows) \<and>
           (\<forall>i<length (tv_body tv).
              map cell_col (tv_body tv ! i) = map fst (rows ! i) \<and>
              (\<forall>cell\<in>set (tv_body tv ! i).
                 cell_flagged cell \<longleftrightarrow> isCellFlagged locs t i (cell_col cell))) \<and>
           (\<forall>rc\<in>set (errors_at locs t).
              (\<forall>i<length rows. fst rc = of_nat i \<longrightarrow> snd rc \<notin> fst ` set (rows ! i)) \<longrightarrow>
              (\<forall>i<length (tv_body tv). \<forall>cell\<in>set (tv_body tv ! i).
                 (of_nat i, cell_col cell) \<noteq> rc)) \<and>
           (map_of locs t = None \<longrightarrow>
              (\<forall>row\<in>set (tv_body tv). \<forall>cell\<in>set row. \<not> cell_flagged cell))"
proof -
  let ?cell = "\<lambda>i kv. \<lparr> cell_col = fst kv,
                         cell_value = js_coalesce (snd kv) (JStr ''NULL''),
                         cell_flagged = isCellFlagged locs t i (fst kv) \<rparr>"
  let ?F = "\<lambda>ir. map (?cell (fst ir)) (snd ir)"
  let ?body = "map ?F (enumerate 0 (take 20 rows))"
  obtain tv where tv: "render_table res (t, JArr (map JObj rows)) = Inr tv"
    and body: "tv_body tv = ?body"
    using render_table_objects [OF assms, of rows] by simp
  have len: "length (tv_body tv) = min 20 (length rows)"
    by (simp add: body min.commute)
  have row: "tv_body tv ! i = map (?cell i) (rows ! i)" if "i < length (tv_body tv)" for i
  proof -
    from that have i: "i < length (take 20 rows)" by (simp add: body)
    then have "?body ! i = ?F (i, take 20 rows ! i)" by (rule body_nth)
    with i show ?thesis by (simp add: body)
  qed
  have cols: "map cell_col (tv_body tv ! i) = map fst (rows ! i)"
    if "i < length (tv_body tv)" for i
    by (simp add: row [OF that] comp_def)
  have flags: "cell_flagged cell \<longleftrightarrow> isCellFlagged locs t i (cell_col cell)"
    if "i < length (tv_body tv)" "cell \<in> set (tv_body tv ! i)" for i cell
    using that by (auto simp: row)
  have inert: "(of_nat i, cell_col cell) \<noteq> rc"
    if "\<forall>i<length rows. fst rc = of_nat i \<longrightarrow> snd rc \<notin> fst ` set (rows ! i)"
      "i < length (tv_body tv)" "cell \<in> set (tv_body tv ! i)"
    for rc :: "rat \<times> string" and i cell
  proof
    assume eq: "(of_nat i, cell_col cell) = rc"
    from that(2) have i: "i < length rows" by (simp add: len)
    from that(3) have c: "cell_col cell \<in> fst ` set (rows ! i)"
      by (force simp: row [OF that(2)])
    from eq have rc: "fst rc = of_nat i" "snd rc = cell_col cell" by auto
    from that(1) i rc(1) have "snd rc \<notin> fst ` set (rows ! i)" by blast
    with c rc(2) show False by simp
  qed
  have none: "\<not> cell_flagged cell"
    if "map_of locs t = None" "r \<in> set (tv_body tv)" "cell \<in> set r" for r cell
  proof -
    from that(2) obtain i where i: "i < length (tv_body tv)" and r: "r = tv_body tv ! i"
      by (auto simp: in_set_conv_nth)
    from that(1) have "\<not> isCellFlagged locs t i (cell_col cell)"
      by (simp add: isCellFlagged_def errors_at_def)
    with flags [OF i] that(3) r show ?thesis by simp
  qed
  from tv len cols flags inert none show ?thesis by blast
qed

text \<open>The one-row report: of its three coordinates for \<open>risk\<close> only the first is the
  coordinate of a cell, and the table \<open>pnl_summary\<close> has no entry.\<close>

lemma scenario_report_cells:
  "render_table scenario_report (''risk'', JArr (map JObj scenario_rows)) =
     Inr \<lparr> tv_name = ''risk'', tv_header = [''id'', ''amount''],
           tv_body = [[\<lparr> cell_col = ''id'', cell_value = JNum 1, cell_flagged = False \<rparr>,
                       \<lparr> cell_col = ''amount'', cell_value = JNum 100, cell_flagged = True \<rparr>]],
           tv_summary = None \<rparr> \<and>
   render_table scenario_report (''pnl_summary'', JArr (map JObj scenario_rows)) =
     Inr \<lparr> tv_name = ''pnl_summary'', tv_header = [''id'', ''amount''],
           tv_body = [[\<lparr> cell_col = ''id'', cell_value = JNum 1, cell_flagged = False \<rparr>,
                       \<lparr> cell_col = ''amount'', cell_value = JNum 100, cell_flagged = False \<rparr>]],
           tv_summary = None \<rparr>"
  by (simp add: scenario_report_def scenario_rows_def scenario_locations_def locations_js_def
      coord_js_def render_header_def render_row_def errors_of_def and_then_def js_or_def
      js_coalesce_def object_prototype_names_def)

text \<open>
  C1, where the page departs from it. The page reads the coordinates of a table by
  \<^verbatim>\<open>result.error_locations[tableName] || []\<close>, which is meant to give no coordinates for a
  table without an entry. For a table whose name is the name of a member inherited from
  \<^verbatim>\<open>Object.prototype\<close>, such as \<^verbatim>\<open>constructor\<close>, the read finds that member instead of
  \<^verbatim>\<open>undefined\<close>, and \<^verbatim>\<open>errors.some\<close> throws on the first cell: the table has no entry,
  and rendering it raises an exception. The same table under the name \<^verbatim>\<open>risk\<close> is
  rendered without a flagged cell.
\<close>

theorem inherited_table_name_throws:
  "get_prop inherited_name_report ''error_locations'' = Inr (JObj []) \<and>
   errors_of inherited_name_report ''constructor'' = Inl TypeError \<and>
   render_table inherited_name_report (''constructor'', JArr [JObj [(''id'', JNum 1)]]) =
     Inl TypeError \<and>
   render_previews inherited_name_report = Inl TypeError \<and>
   render_table inherited_name_report (''risk'', JArr [JObj [(''id'', JNum 1)]]) =
     Inr \<lparr> tv_name = ''risk'', tv_header = [''id''],
           tv_body = [[\<lparr> cell_col = ''id'', cell_value = JNum 1, cell_flagged = False \<rparr>]],
           tv_summary = None \<rparr>"
  by (simp add: inherited_name_report_def render_previews_def render_header_def render_row_def
      errors_of_def and_then_def js_or_def js_coalesce_def object_prototype_names_def)

subsection \<open>The cap of 20 rows\<close>

text \<open>
  C2, as the page does it. For a report with well-formed error locations, a preview of
  row objects, and a table that has an entry in the error locations or whose name is not
  the name of a member inherited from \<^verbatim>\<open>Object.prototype\<close> (nothing is said here of the
  other table names), the body shows exactly the first 20 rows, in the order of the
  preview, with their columns and values. With more than 20 rows the table is followed by the
  paragraph \<^verbatim>\<open>Showing first 20 rows of N\<close>, where \<open>N\<close> is the total number of rows of the
  preview (not the number of rows left out); with at most 20 rows every row is shown
  and there is no paragraph. A preview without rows gives a table with no header cell
  and no body row, whatever the rest of the report is, and no exception.
\<close>

theorem preview_cap:
  "(get_prop res ''error_locations'' = Inr (locations_js locs) \<and>
    (map_of locs t \<noteq> None \<or> t \<notin> set object_prototype_names) \<longrightarrow>
      (\<exists>tv. render_table res (t, JArr (map JObj rows)) = Inr tv \<and>
         map (map (\<lambda>c. (cell_col c, cell_value c))) (tv_body tv) =
           map (map (\<lambda>kv. (fst kv, js_coalesce (snd kv) (JStr ''NULL'')))) (take 20 rows) \<and>
         (20 < length rows \<longrightarrow>
            length (tv_body tv) = 20 \<and>
            tv_summary tv =
              Some [Lit ''Showing first 20 rows of '', Val (JNum (of_nat (length rows)))]) \<and>
         (length rows \<le> 20 \<longrightarrow>
            length (tv_body tv) = length rows \<and> tv_summary tv = None))) \<and>
   render_table res (t, JArr []) =
     Inr \<lparr> tv_name = t, tv_header = [], tv_body = [], tv_summary = None \<rparr>"
proof -
  have a: "\<exists>tv. render_table res (t, JArr (map JObj rows)) = Inr tv \<and>
         map (map (\<lambda>c. (cell_col c, cell_value c))) (tv_body tv) =
           map (map (\<lambda>kv. (fst kv, js_coalesce (snd kv) (JStr ''NULL'')))) (take 20 rows) \<and>
         (20 < length rows \<longrightarrow>
            length (tv_body tv) = 20 \<and>
            tv_summary tv =
              Some [Lit ''Showing first 20 rows of '', Val (JNum (of_nat (length rows)))]) \<and>
         (length rows \<le> 20 \<longrightarrow>
            length (tv_body tv) = length rows \<and> tv_summary tv = None)"
    if h: "get_prop res ''error_locations'' = Inr (locations_js locs)"
      and n: "map_of locs t \<noteq> None \<or> t \<notin> set object_prototype_names"
  proof -
    have cells: "map ((\<lambda>x. map (\<lambda>c. (cell_col c, cell_value c)) x) \<circ>
                  (\<lambda>ir. map (\<lambda>kv. \<lparr> cell_col = fst kv,
                              cell_value = js_coalesce (snd kv) (JStr ''NULL''),
                              cell_flagged = isCellFlagged locs t (fst ir) (fst kv) \<rparr>) (snd ir)))
               (enumerate k rs) =
             map (map (\<lambda>kv. (fst kv, js_coalesce (snd kv) (JStr ''NULL'')))) rs" for k rs
      by (induction rs arbitrary: k) (simp_all add: comp_def)
    obtain tv where tv: "render_table res (t, JArr (map JObj rows)) = Inr tv"
      and body: "tv_body tv =
        map (\<lambda>ir. map (\<lambda>kv. \<lparr> cell_col = fst kv,
                              cell_value = js_coalesce (snd kv) (JStr ''NULL''),
                              cell_flagged = isCellFlagged locs t (fst ir) (fst kv) \<rparr>) (snd ir))
            (enumerate 0 (take 20 rows))"
      and summary: "tv_summary tv =
        (if 20 < length rows
         then Some [Lit ''Showing first 20 rows of '', Val (JNum (of_nat (length rows)))]
         else None)"
      using render_table_objects [OF h n, of rows] by simp
    have shown: "map (map (\<lambda>c. (cell_col c, cell_value c))) (tv_body tv) =
           map (map (\<lambda>kv. (fst kv, js_coalesce (snd kv) (JStr ''NULL'')))) (take 20 rows)"
      using cells [of 0 "take 20 rows"] by (simp add: body)
    have len: "length (tv_body tv) = min 20 (length rows)"
      by (simp add: body min.commute)
    from tv shown len summary show ?thesis by auto
  qed
  have b: "render_table res (t, JArr []) =
     Inr \<lparr> tv_name = t, tv_header = [], tv_body = [], tv_summary = None \<rparr>"
    by (rule render_table_empty)
  from a b show ?thesis by blast
qed

text \<open>Witness for C2: the preview of 25 rows and the preview of one row.\<close>

theorem preview_cap_witness:
  "get_prop long_report ''error_locations'' = Inr (locations_js []) \<and>
   ''t'' \<notin> set object_prototype_names \<and>
   (\<exists>tv. render_table long_report (''t'', JArr (map JObj long_rows)) = Inr tv \<and>
      length (tv_body tv) = 20 \<and>
      tv_summary tv = Some [Lit ''Showing first 20 rows of '', Val (JNum 25)]) \<and>
   (\<exists>tv. render_table scenario_report (''risk'', JArr (map JObj scenario_rows)) = Inr tv \<and>
      length (tv_body tv) = 1 \<and> tv_summary tv = None)"
proof -
  have h: "get_prop scenario_report ''error_locations'' = Inr (locations_js scenario_locations)"
    by (simp add: scenario_report_def)
  have "length scenario_rows = 1"
    by (simp add: scenario_rows_def)
  moreover have "''t'' \<notin> set object_prototype_names"
    by (simp add: object_prototype_names_def)
  moreover have "map_of scenario_locations ''risk'' \<noteq> None"
    by (simp add: scenario_locations_def)
  ultimately show ?thesis
    using preview_cap [of long_report "[]" "''t''" long_rows]
      preview_cap [of scenario_report scenario_locations "''risk''" scenario_rows]
      long_report_locations h long_rows_length
    by auto
qed

text \<open>Counterexample to C2 as stated: for the preview of 25 rows, 5 rows are left out,
  and the paragraph carries the number 25 and not the number 5.\<close>

theorem summary_shows_total_counterexample:
  "map_sum id tv_summary (render_table long_report (''t'', JArr (map JObj long_rows))) =
     Inr (Some [Lit ''Showing first 20 rows of '', Val (JNum 25)]) \<and>
   length long_rows - 20 = 5 \<and>
   Val (JNum 5) \<notin> set [Lit ''Showing first 20 rows of '', Val (JNum 25)]"
proof -
  have "map_of ([] :: locations) ''t'' \<noteq> None \<or> ''t'' \<notin> set object_prototype_names"
    by (simp add: object_prototype_names_def)
  from render_table_objects [OF long_report_locations this, of long_rows] long_rows_length
  show ?thesis by simp
qed

subsection \<open>Classification of validation failures\<close>




subsection \<open>The validate button\<close>

text \<open>
  C4. In every world that a sequence of events reaches from the mounted page: if the
  validate button is enabled then the backend is ready, a dataset is selected, a file is
  present and no validate request is pending; and if one of these four conditions
  fails, a click on the button issues no request, opens no dialog and leaves the world
  as it is. Where the file or the dataset is missing, the handler itself only opens the
  dialog for missing input.
\<close>

theorem validate_gate:
  fixes es :: "event list"
  defines "w \<equiv> run es initial_world"
  shows "(\<not> validate_disabled (ui w) \<longrightarrow>
            backendStatus (ui w) = Ready \<and> dataset (ui w) \<noteq> [] \<and> file_val (ui w) \<noteq> None \<and>
            validate_pending w = 0) \<and>
         (\<not> (backendStatus (ui w) = Ready \<and> dataset (ui w) \<noteq> [] \<and> file_val (ui w) \<noteq> None \<and>
             validate_pending w = 0) \<longrightarrow> step ClickValidate w = (w, [])) \<and>
         (file_val (ui w) = None \<or> dataset (ui w) = [] \<longrightarrow>
            handleValidate (ui w) = (ui w, [Alert [Lit missing_input_text]]))"
proof -
  have inv: "flight_inv w"
    unfolding w_def by (rule flight_inv_run [OF flight_inv_initial])
  have a: "\<not> validate_disabled (ui w) \<longrightarrow>
            backendStatus (ui w) = Ready \<and> dataset (ui w) \<noteq> [] \<and> file_val (ui w) \<noteq> None \<and>
            validate_pending w = 0"
    using inv by (auto simp: validate_disabled_def flight_inv_def)
  have b: "\<not> (backendStatus (ui w) = Ready \<and> dataset (ui w) \<noteq> [] \<and> file_val (ui w) \<noteq> None \<and>
             validate_pending w = 0) \<longrightarrow> step ClickValidate w = (w, [])"
    using inv by (auto simp: validate_disabled_def flight_inv_def)
  have c: "file_val (ui w) = None \<or> dataset (ui w) = [] \<longrightarrow>
            handleValidate (ui w) = (ui w, [Alert [Lit missing_input_text]])"
    by (auto simp: handleValidate_def split: option.splits)
  from a b c show ?thesis by blast
qed

text \<open>Witness for C4: the button is enabled after the poll has succeeded and a dataset
  and a file were chosen, and it is disabled when only the poll has succeeded.\<close>

theorem validate_gate_witness:
  "\<not> validate_disabled
       (ui (run [Health True, DatasetChange ''Risk'', FileChange (Some (File ''risk.xlsx'' [])) ''risk.xlsx'']
            initial_world)) \<and>
   validate_pending
       (run [Health True, DatasetChange ''Risk'', FileChange (Some (File ''risk.xlsx'' [])) ''risk.xlsx'']
            initial_world) = 0 \<and>
   step ClickValidate (run [Health True] initial_world) = (run [Health True] initial_world, []) \<and>
   handleValidate (ui (run [Health True] initial_world)) =
     (ui (run [Health True] initial_world), [Alert [Lit missing_input_text]])"
  using validate_gate [of "[Health True, DatasetChange ''Risk'', FileChange (Some (File ''risk.xlsx'' [])) ''risk.xlsx'']"]
    validate_gate [of "[Health True]"]
  by (simp add: run_simps)

subsection \<open>Saving\<close>

text \<open>
  C5. When no report is held, or the report's \<^verbatim>\<open>valid\<close> is \<^verbatim>\<open>false\<close>, \<^verbatim>\<open>handleSave\<close> only
  opens the dialog \<^verbatim>\<open>Fix validation errors first\<close>: it issues no request and returns
  the state unchanged. The save button is not rendered in such a state.
\<close>

theorem handleSave_guard:
  assumes "result s = JNull \<or> get_prop (result s) ''valid'' = Inr (JBool False)"
  shows "handleSave s = (s, [Alert [Lit ''Fix validation errors first'']]) \<and> \<not> save_shown s"
  using assms by (auto simp: handleSave_def save_shown_def opt_prop_def)

text \<open>Witness for C5: a report with \<^verbatim>\<open>valid: false\<close>, and the mounted page without a
  report.\<close>

theorem handleSave_guard_witness:
  "handleSave (initial_state\<lparr> result := JObj [(''valid'', JBool False)] \<rparr>) =
     (initial_state\<lparr> result := JObj [(''valid'', JBool False)] \<rparr>,
      [Alert [Lit ''Fix validation errors first'']]) \<and>
   handleSave initial_state = (initial_state, [Alert [Lit ''Fix validation errors first'']])"
  using handleSave_guard [of "initial_state\<lparr> result := JObj [(''valid'', JBool False)] \<rparr>"]
    handleSave_guard [of initial_state]
  by (simp add: initial_state_def)

text \<open>
  C6. When the save request succeeds, the report, the file and the dataset are cleared
  and nothing else of the state changes, so the workflow is idle; when it fails, the
  state is returned unchanged.
\<close>

theorem handleSave_settled_frame:
  "fst (handleSave_settled (Fulfilled d) s) = s\<lparr> result := JNull, file_val := None, dataset := [] \<rparr> \<and>
   is_idle (fst (handleSave_settled (Fulfilled d) s)) \<and>
   fst (handleSave_settled (Thrown err) s) = s"
  by (simp add: handleSave_settled_def is_idle_def)

text \<open>Witness for C6, on the state in which a dataset and a file are chosen.\<close>

theorem handleSave_settled_frame_witness:
  "is_idle (fst (handleSave_settled (Fulfilled JNull) (ui (run ready_session initial_world)))) \<and>
   fst (handleSave_settled (Thrown null_body_500) (ui (run ready_session initial_world))) =
     ui (run ready_session initial_world)"
  using handleSave_settled_frame [of JNull "ui (run ready_session initial_world)" null_body_500]
  by (simp add: is_idle_def)

subsection \<open>A failed validation\<close>

text \<open>Whenever the \<^verbatim>\<open>catch\<close> block completes, the page stops loading; the report, the
  dataset and the file are as before in every case (\<open>validate_failure_frame\<close>).\<close>

lemma validate_failure_resets_loading:
  assumes "validate_alert err = Inr m"
  shows "handleValidate_settled (Thrown err) s = (s\<lparr> loading := False \<rparr>, [ConsoleError err, Alert m])"
  using assms by (simp add: handleValidate_settled_def)

text \<open>
  C7, where the page departs from it. After a failed validate request the handler is
  meant to end with \<^verbatim>\<open>setLoading(false)\<close>. When the response has status 500 and its body
  is \<^verbatim>\<open>null\<close>, reading \<^verbatim>\<open>err.response.data.detail\<close> throws inside the \<^verbatim>\<open>catch\<close> block: no
  dialog is opened and \<^verbatim>\<open>loading\<close> stays true. In the session below the request has
  been answered, yet the page is still loading and the validate button is disabled.
\<close>

theorem validate_failure_null_body_stuck:
  "handleValidate_settled (Thrown null_body_500) (s\<lparr> loading := True \<rparr>) =
     (s\<lparr> loading := True \<rparr>, [ConsoleError null_body_500, Uncaught TypeError]) \<and>
   validate_pending (run null_body_session initial_world) = 0 \<and>
   loading (ui (run null_body_session initial_world)) \<and>
   validate_disabled (ui (run null_body_session initial_world))"
  by (simp add: null_body_session_def ready_session_def null_body_500_def run_simps
      and_then_def)

subsection \<open>Clearing\<close>

text \<open>
  C8. \<^verbatim>\<open>handleClear\<close> is a total function of the state: from any state it gives a state
  with the report, the file and the dataset selector cleared, and applying it twice gives
  exactly the state that applying it once gives.
\<close>

theorem handleClear_idle_idempotent:
  "is_idle (handleClear s) \<and> handleClear (handleClear s) = handleClear s"
  by (simp add: handleClear_def is_idle_def)

text \<open>Witness for C8, on the state in which a dataset and a file are chosen.\<close>

theorem handleClear_idle_idempotent_witness:
  "is_idle (handleClear (ui (run ready_session initial_world))) \<and>
   handleClear (handleClear (ui (run ready_session initial_world))) =
     handleClear (ui (run ready_session initial_world))"
  using handleClear_idle_idempotent [of "ui (run ready_session initial_world)"]
  by simp

subsection \<open>The lines of the validation summary\<close>

text \<open>
  C9, as the page does it. The line of a check object shows \<^verbatim>\<open>PASSED\<close> when the property
  \<^verbatim>\<open>passed\<close> of the check is the boolean \<^verbatim>\<open>true\<close> and \<^verbatim>\<open>FAILED\<close> otherwise, followed by
  the property \<^verbatim>\<open>msg\<close> of the check, unchanged, when that is a true value, and by the
  text \<^verbatim>\<open>No message\<close> when \<^verbatim>\<open>msg\<close> is absent or empty. No property \<^verbatim>\<open>message\<close> is read.
\<close>

theorem check_line_reads_msg:
  "render_check (checkName, JObj kvs) =
     Inr \<lparr> cv_name = checkName,
           cv_passed = (map_of kvs ''passed'' = Some (JBool True)),
           cv_text =
             [Lit (if map_of kvs ''passed'' = Some (JBool True) then ''PASSED'' else ''FAILED''),
              Lit '' '',
              Val (case map_of kvs ''msg'' of
                     None \<Rightarrow> JStr ''No message''
                   | Some m \<Rightarrow> if truthy m then m else JStr ''No message'')] \<rparr>"
  by (auto simp: and_then_def js_or_def split: option.splits)

text \<open>Witness for C9: a check with a text under \<^verbatim>\<open>msg\<close>, and one whose \<^verbatim>\<open>passed\<close> is not a
  boolean and whose \<^verbatim>\<open>msg\<close> is empty.\<close>

theorem check_line_reads_msg_witness:
  "render_check (''nonNegative'', JObj [(''passed'', JBool True), (''msg'', JStr ''ok'')]) =
     Inr \<lparr> cv_name = ''nonNegative'', cv_passed = True,
           cv_text = [Lit ''PASSED'', Lit '' '', Val (JStr ''ok'')] \<rparr> \<and>
   render_check (''rowCount'', JObj [(''passed'', JStr ''true''), (''msg'', JStr [])]) =
     Inr \<lparr> cv_name = ''rowCount'', cv_passed = False,
           cv_text = [Lit ''FAILED'', Lit '' '', Val (JStr ''No message'')] \<rparr>"
  using check_line_reads_msg [of "''nonNegative''" "[(''passed'', JBool True), (''msg'', JStr ''ok'')]"]
    check_line_reads_msg [of "''rowCount''" "[(''passed'', JStr ''true''), (''msg'', JStr [])]"]
  by simp

text \<open>Counterexample to C9 as stated: for the check outcome
  \<^verbatim>\<open>{passed: true, message: "ok"}\<close> the line reads \<^verbatim>\<open>PASSED No message\<close>; the text of
  \<^verbatim>\<open>message\<close> is not shown.\<close>

theorem message_field_not_shown_counterexample:
  "render_check (''nonNegative'', JObj [(''passed'', JBool True), (''message'', JStr ''ok'')]) =
     Inr \<lparr> cv_name = ''nonNegative'', cv_passed = True,
           cv_text = [Lit ''PASSED'', Lit '' '', Val (JStr ''No message'')] \<rparr> \<and>
   Val (JStr ''ok'') \<notin> set [Lit ''PASSED'', Lit '' '', Val (JStr ''No message'')]"
  by (simp add: and_then_def js_or_def)

subsection \<open>Validation discards the report\<close>

text \<open>
  C10. With a file and a dataset present, \<^verbatim>\<open>handleValidate\<close> sets the report to \<^verbatim>\<open>null\<close>
  in the state with which the request is issued. In every reachable world in which a
  validate request is pending, no report is held; and when that request fails, the page
  still holds no report, whatever report it held before the click.
\<close>

theorem validate_discards_report:
  fixes es :: "event list"
  defines "w \<equiv> run es initial_world"
  shows "(file_val s = Some f \<and> dataset s \<noteq> [] \<longrightarrow>
            handleValidate s =
              (s\<lparr> loading := True, result := JNull \<rparr>,
               [HttpPost (''http://localhost:8000/validate/'' @ dataset s) (FormData f)])) \<and>
         (0 < validate_pending w \<longrightarrow> result (ui w) = JNull) \<and>
         (0 < validate_pending w \<longrightarrow>
            result (ui (fst (step (ValidateSettled (Thrown err)) w))) = JNull)"
proof -
  have inv: "flight_inv w"
    unfolding w_def by (rule flight_inv_run [OF flight_inv_initial])
  have a: "file_val s = Some f \<and> dataset s \<noteq> [] \<longrightarrow>
            handleValidate s =
              (s\<lparr> loading := True, result := JNull \<rparr>,
               [HttpPost (''http://localhost:8000/validate/'' @ dataset s) (FormData f)])"
    by (simp add: handleValidate_def)
  have b: "0 < validate_pending w \<longrightarrow> result (ui w) = JNull"
    using inv by (auto simp: flight_inv_def)
  have c: "0 < validate_pending w \<longrightarrow>
            result (ui (fst (step (ValidateSettled (Thrown err)) w))) = JNull"
    using b validate_failure_frame [of err "ui w"] by (auto split: prod.splits)
  from a b c show ?thesis by blast
qed

text \<open>Witness for C10: a session that holds a report, validates again and fails.\<close>

theorem validate_discards_report_witness:
  "result (ui (run [Health True, DatasetChange ''Risk'', FileChange (Some (File ''risk.xlsx'' [])) ''risk.xlsx'',
                    ClickValidate, ValidateSettled (Fulfilled (JObj [(''valid'', JBool True)]))]
                 initial_world)) = JObj [(''valid'', JBool True)] \<and>
   validate_pending
     (run [Health True, DatasetChange ''Risk'', FileChange (Some (File ''risk.xlsx'' [])) ''risk.xlsx'',
           ClickValidate, ValidateSettled (Fulfilled (JObj [(''valid'', JBool True)])), ClickValidate]
        initial_world) = 1 \<and>
   result (ui
     (run [Health True, DatasetChange ''Risk'', FileChange (Some (File ''risk.xlsx'' [])) ''risk.xlsx'',
           ClickValidate, ValidateSettled (Fulfilled (JObj [(''valid'', JBool True)])), ClickValidate]
        initial_world)) = JNull \<and>
   result (ui (fst (step
     (ValidateSettled (Thrown \<lparr> err_response = None, err_code = Some ''ERR_NETWORK'',
                                 err_message = ''Network Error'' \<rparr>))
     (run [Health True, DatasetChange ''Risk'', FileChange (Some (File ''risk.xlsx'' [])) ''risk.xlsx'',
           ClickValidate, ValidateSettled (Fulfilled (JObj [(''valid'', JBool True)])), ClickValidate]
        initial_world)))) = JNull"
  using validate_discards_report
    [of "ui (run [Health True, DatasetChange ''Risk'', FileChange (Some (File ''risk.xlsx'' [])) ''risk.xlsx'',
                  ClickValidate, ValidateSettled (Fulfilled (JObj [(''valid'', JBool True)]))]
               initial_world)"
        "File ''risk.xlsx'' []"
        "[Health True, DatasetChange ''Risk'', FileChange (Some (File ''risk.xlsx'' [])) ''risk.xlsx'',
          ClickValidate, ValidateSettled (Fulfilled (JObj [(''valid'', JBool True)])), ClickValidate]"
        "\<lparr> err_response = None, err_code = Some ''ERR_NETWORK'', err_message = ''Network Error'' \<rparr>"]
  by (simp add: run_simps)

end
